theory Spec2Isabelle
  imports Main
begin

section \<open>Configuration export and import of the account manager\<close>

text \<open>
  The configuration store (the Zustand store \<open>useConfigStore\<close>) offers two asynchronous
  operations, \<open>importConfig\<close> and \<open>exportConfig\<close>. Each of them talks to collaborators
  that live outside the store: the file dialogs, the file reader, the backend commands
  reached through \<open>invoke\<close>, the password dialog of the application shell and the logger.

  The embedding threads one system state through every operation. An operation appends
  an event to the trace for each effect it performs, in program order; the collaborators
  are parameters (the record \<open>env\<close>). A statement yields \<open>Inl e\<close> when it throws or its
  promise is rejected, and \<open>try\<close>, \<open>catch\<close> and \<open>finally\<close> are combinators on such
  statements; the value an operation returns is the outcome of its promise. The closures
  handed to the password dialog are represented by the data they capture (\<open>callback\<close>).
  The texts of log lines and of dialog titles are Chinese in the source; they are written
  here as short English glosses.

  The store's module calls \<open>showStatus\<close>, but neither declares nor imports it, and the
  operations do not receive it as a parameter. The identifier is therefore resolved in
  the global environment: with no global of that name, which is how the sources stand,
  every call throws a \<open>ReferenceError\<close>. The binding is a field of \<open>env\<close>
  (\<open>showStatus_global\<close>), so that the text of the operations is translated as it is
  written; \<open>Unbound\<close> is the repository.
\<close>

subsection \<open>Values of the scripting language\<close>

datatype jsval =
    JUndefined
  | JNull
  | JBool bool
  | JNum int
  | JStr string
  | JArr "jsval list"
  | JObj "(string \<times> jsval) list"

text \<open>
  Truthiness, as used by the operator \<open>!\<close>. Numbers are kept as integers: the operations
  only test them for being zero.
\<close>

fun truthy :: "jsval \<Rightarrow> bool" where
  "truthy JUndefined = False"
| "truthy JNull = False"
| "truthy (JBool b) = b"
| "truthy (JNum n) = (n \<noteq> 0)"
| "truthy (JStr s) = (s \<noteq> [])"
| "truthy (JArr xs) = True"
| "truthy (JObj kvs) = True"

text \<open>\<open>typeof v === 'string'\<close> and \<open>Array.isArray(v)\<close>.\<close>

fun is_string :: "jsval \<Rightarrow> bool" where
  "is_string (JStr s) = True"
| "is_string v = False"

fun isArray :: "jsval \<Rightarrow> bool" where
  "isArray (JArr xs) = True"
| "isArray v = False"

datatype exn =
    Rejected string         \<comment> \<open>a collaborator's rejection or exception, with its message\<close>
  | TypeError               \<comment> \<open>reading a property of \<open>null\<close> or \<open>undefined\<close>\<close>
  | ReferenceError          \<comment> \<open>resolving an identifier that is bound nowhere\<close>
  | InvalidFormat           \<comment> \<open>\<open>new Error\<close> with the text "configuration file format invalid"\<close>

text \<open>
  Reading one of the properties \<open>version\<close> and \<open>backups\<close>: an object yields its own
  property or \<open>undefined\<close>; \<open>null\<close> and \<open>undefined\<close> raise; every other value has no
  property of these two names.
\<close>

fun get_prop :: "jsval \<Rightarrow> string \<Rightarrow> exn + jsval" where
  "get_prop JUndefined k = Inl TypeError"
| "get_prop JNull k = Inl TypeError"
| "get_prop (JObj kvs) k = (case map_of kvs k of None \<Rightarrow> Inr JUndefined | Some v \<Rightarrow> Inr v)"
| "get_prop v k = Inr JUndefined"

text \<open>The elements of a value that passed \<open>Array.isArray\<close>, and the text of a string.\<close>

fun elements :: "jsval \<Rightarrow> jsval list" where
  "elements (JArr xs) = xs"
| "elements v = []"

fun the_string :: "jsval \<Rightarrow> string" where
  "the_string (JStr p) = p"
| "the_string v = []"

subsection \<open>Events, collaborators and the system state\<close>

datatype level = Info | Warn | Error

datatype status_msg =
    StNoFileSelected
  | StFileEmpty
  | StDecrypting
  | StRestoring
  | StImportedPartial nat nat   \<comment> \<open>import succeeded, restored \<open>n\<close> accounts, \<open>m\<close> failed\<close>
  | StImported nat              \<comment> \<open>import succeeded, restored \<open>n\<close> accounts\<close>
  | StDecryptFailed exn
  | StFileOpFailed exn
  | StCollecting
  | StNoUserInfo
  | StGenerating
  | StNoSaveLocation
  | StSaved string
  | StExportFailed exn
  | StCheckFailed exn

datatype command =
    DecryptConfigData string string
  | RestoreBackupFiles "jsval list"
  | CollectBackupContents
  | EncryptConfigData string string
  | WriteTextFile string string

text \<open>
  \<open>StoreState i e c\<close>: the store's \<open>set\<close> has merged an update and published the state,
  whose flags \<open>isImporting\<close>, \<open>isExporting\<close> and \<open>isCheckingData\<close> now are \<open>i\<close>, \<open>e\<close>
  and \<open>c\<close>. \<open>ShowStatus\<close> is what a bound status reporter is called with.
\<close>

datatype event =
    Log level string
  | ShowStatus status_msg bool
  | DialogOpen
  | ReadFile string
  | ShowPasswordDialog string bool
  | ClosePasswordDialog
  | StoreState bool bool bool
  | Invoke command
  | JSONParse string
  | JSONStringify jsval
  | DialogSave string
  | ToastError string

record RestoreResult =
  restoredCount :: nat
  failed :: "(string \<times> string) list"

text \<open>
  What the global environment holds under the name \<open>showStatus\<close>: nothing, or a reporter
  that takes the message and the error flag and returns.
\<close>

datatype binding = Unbound | Reporter

text \<open>
  The collaborators. \<open>'w\<close> is the world outside the store (the snapshot repository and
  the file system); only \<open>restore_backup_files\<close> and \<open>write_text_file\<close> can change it.
  \<open>readFile\<close> stands for reading the bytes and decoding them to text.
\<close>

record 'w env =
  showStatus_global :: binding
  dialog_open :: "exn + jsval"
  readFile :: "string \<Rightarrow> 'w \<Rightarrow> exn + string"
  decrypt_config_data :: "string \<Rightarrow> string \<Rightarrow> exn + string"
  JSON_parse :: "string \<Rightarrow> exn + jsval"
  restore_backup_files :: "jsval list \<Rightarrow> 'w \<Rightarrow> (exn + RestoreResult) \<times> 'w"
  collect_backup_contents :: "'w \<Rightarrow> exn + jsval list"
  JSON_stringify :: "jsval \<Rightarrow> string"
  encrypt_config_data :: "string \<Rightarrow> string \<Rightarrow> exn + string"
  Date_toISOString :: "string"
  dialog_save :: "string \<Rightarrow> exn + jsval"
  write_text_file :: "string \<Rightarrow> string \<Rightarrow> 'w \<Rightarrow> (exn + unit) \<times> 'w"

record validation =
  isValid :: bool
  message :: "string option"

text \<open>
  The two \<open>onSubmit\<close> closures, by what they capture: the text of the selected file
  (import) or the collected backup entries (export). \<open>NoCallback\<close> is the initial
  \<open>() => {}\<close> of the application shell.
\<close>

datatype callback =
    NoCallback
  | ImportOnSubmit string
  | ExportOnSubmit "jsval list"

record PasswordDialogConfig =
  title :: string
  description :: string
  requireConfirmation :: bool
  onSubmit :: callback
  validatePassword :: "(string \<Rightarrow> validation) option"

record passwordDialog = PasswordDialogConfig +
  isOpen :: bool

record 'w sys =
  isImporting :: bool
  isExporting :: bool
  isCheckingData :: bool
  dialog :: passwordDialog
  world :: 'w
  trace :: "event list"

subsection \<open>Statements\<close>

text \<open>
  A statement takes the state and yields its outcome with the new state. \<open>stmt\<close> is a
  statement that cannot throw, \<open>andThen\<close> is sequencing (what follows a throw is
  skipped), \<open>try_catch\<close> runs the handler on a throw, \<open>try_finally\<close> runs the final
  statement whatever the outcome and keeps that outcome.
\<close>

definition stmt :: "('w sys \<Rightarrow> 'w sys) \<Rightarrow> 'w sys \<Rightarrow> (exn + unit) \<times> 'w sys" where
  "stmt f s = (Inr (), f s)"

definition andThen ::
  "('w sys \<Rightarrow> (exn + 'a) \<times> 'w sys) \<Rightarrow> ('a \<Rightarrow> 'w sys \<Rightarrow> (exn + 'b) \<times> 'w sys) \<Rightarrow>
   'w sys \<Rightarrow> (exn + 'b) \<times> 'w sys" where
  "andThen m k s = (case fst (m s) of Inl e \<Rightarrow> (Inl e, snd (m s)) | Inr x \<Rightarrow> k x (snd (m s)))"

definition try_catch ::
  "('w sys \<Rightarrow> (exn + 'a) \<times> 'w sys) \<Rightarrow> (exn \<Rightarrow> 'w sys \<Rightarrow> (exn + 'a) \<times> 'w sys) \<Rightarrow>
   'w sys \<Rightarrow> (exn + 'a) \<times> 'w sys" where
  "try_catch m h s = (case fst (m s) of Inl e \<Rightarrow> h e (snd (m s)) | Inr x \<Rightarrow> (Inr x, snd (m s)))"

definition try_finally ::
  "('w sys \<Rightarrow> (exn + 'a) \<times> 'w sys) \<Rightarrow> ('w sys \<Rightarrow> 'w sys) \<Rightarrow>
   'w sys \<Rightarrow> (exn + 'a) \<times> 'w sys" where
  "try_finally m f s = (fst (m s), f (snd (m s)))"

definition emit :: "event \<Rightarrow> 'w sys \<Rightarrow> 'w sys" where
  "emit e s = s\<lparr>trace := trace s @ [e]\<rparr>"

definition logger :: "level \<Rightarrow> string \<Rightarrow> 'w sys \<Rightarrow> 'w sys" where
  "logger l m s = emit (Log l m) s"

text \<open>A call of \<open>showStatus(message, isError)\<close>; the error flag is \<open>false\<close> when omitted.\<close>

definition showStatus ::
  "'w env \<Rightarrow> status_msg \<Rightarrow> bool \<Rightarrow> 'w sys \<Rightarrow> (exn + unit) \<times> 'w sys" where
  "showStatus env m isError s =
     (case showStatus_global env of
        Unbound \<Rightarrow> (Inl ReferenceError, s)
      | Reporter \<Rightarrow> (Inr (), emit (ShowStatus m isError) s))"

text \<open>The store's \<open>set({...})\<close> for each flag, and the three setter actions built on it.\<close>

definition publish :: "'w sys \<Rightarrow> 'w sys" where
  "publish s = emit (StoreState (isImporting s) (isExporting s) (isCheckingData s)) s"

definition set_isImporting :: "bool \<Rightarrow> 'w sys \<Rightarrow> 'w sys" where
  "set_isImporting b s = publish (s\<lparr>isImporting := b\<rparr>)"

definition set_isExporting :: "bool \<Rightarrow> 'w sys \<Rightarrow> 'w sys" where
  "set_isExporting b s = publish (s\<lparr>isExporting := b\<rparr>)"

definition set_isCheckingData :: "bool \<Rightarrow> 'w sys \<Rightarrow> 'w sys" where
  "set_isCheckingData b s = publish (s\<lparr>isCheckingData := b\<rparr>)"

definition setImporting :: "bool \<Rightarrow> 'w sys \<Rightarrow> 'w sys" where
  "setImporting isImporting' s = set_isImporting isImporting' s"

definition setExporting :: "bool \<Rightarrow> 'w sys \<Rightarrow> 'w sys" where
  "setExporting isExporting' s = set_isExporting isExporting' s"

definition setCheckingData :: "bool \<Rightarrow> 'w sys \<Rightarrow> 'w sys" where
  "setCheckingData isCheckingData' s = set_isCheckingData isCheckingData' s"

text \<open>The calls of the collaborators: the event, then the collaborator's answer.\<close>

definition call_open :: "'w env \<Rightarrow> 'w sys \<Rightarrow> (exn + jsval) \<times> 'w sys" where
  "call_open env s = (dialog_open env, emit DialogOpen s)"

definition call_readFile :: "'w env \<Rightarrow> string \<Rightarrow> 'w sys \<Rightarrow> (exn + string) \<times> 'w sys" where
  "call_readFile env path s = (readFile env path (world s), emit (ReadFile path) s)"

definition invoke_decrypt ::
  "'w env \<Rightarrow> string \<Rightarrow> string \<Rightarrow> 'w sys \<Rightarrow> (exn + string) \<times> 'w sys" where
  "invoke_decrypt env encryptedData password s =
     (decrypt_config_data env encryptedData password,
      emit (Invoke (DecryptConfigData encryptedData password)) s)"

definition call_JSON_parse :: "'w env \<Rightarrow> string \<Rightarrow> 'w sys \<Rightarrow> (exn + jsval) \<times> 'w sys" where
  "call_JSON_parse env text s = (JSON_parse env text, emit (JSONParse text) s)"

definition invoke_restore ::
  "'w env \<Rightarrow> jsval list \<Rightarrow> 'w sys \<Rightarrow> (exn + RestoreResult) \<times> 'w sys" where
  "invoke_restore env backups s =
     (fst (restore_backup_files env backups (world s)),
      (emit (Invoke (RestoreBackupFiles backups)) s)
        \<lparr>world := snd (restore_backup_files env backups (world s))\<rparr>)"

definition invoke_collect :: "'w env \<Rightarrow> 'w sys \<Rightarrow> (exn + jsval list) \<times> 'w sys" where
  "invoke_collect env s =
     (collect_backup_contents env (world s), emit (Invoke CollectBackupContents) s)"

definition call_JSON_stringify :: "'w env \<Rightarrow> jsval \<Rightarrow> 'w sys \<Rightarrow> (exn + string) \<times> 'w sys" where
  "call_JSON_stringify env v s = (Inr (JSON_stringify env v), emit (JSONStringify v) s)"

definition invoke_encrypt ::
  "'w env \<Rightarrow> string \<Rightarrow> string \<Rightarrow> 'w sys \<Rightarrow> (exn + string) \<times> 'w sys" where
  "invoke_encrypt env jsonData password s =
     (encrypt_config_data env jsonData password,
      emit (Invoke (EncryptConfigData jsonData password)) s)"

definition call_save :: "'w env \<Rightarrow> string \<Rightarrow> 'w sys \<Rightarrow> (exn + jsval) \<times> 'w sys" where
  "call_save env defaultPath s = (dialog_save env defaultPath, emit (DialogSave defaultPath) s)"

definition invoke_write ::
  "'w env \<Rightarrow> string \<Rightarrow> string \<Rightarrow> 'w sys \<Rightarrow> (exn + unit) \<times> 'w sys" where
  "invoke_write env path content s =
     (fst (write_text_file env path content (world s)),
      (emit (Invoke (WriteTextFile path content)) s)
        \<lparr>world := snd (write_text_file env path content (world s))\<rparr>)"

subsection \<open>The password dialog of the application shell\<close>

definition initial_passwordDialog :: passwordDialog where
  "initial_passwordDialog =
     \<lparr>title = [], description = [], requireConfirmation = False, onSubmit = NoCallback,
      validatePassword = None, isOpen = False\<rparr>"

definition showPasswordDialog :: "PasswordDialogConfig \<Rightarrow> 'w sys \<Rightarrow> 'w sys" where
  "showPasswordDialog config s =
     emit (ShowPasswordDialog (title config) (requireConfirmation config))
       (s\<lparr>dialog :=
            \<lparr>title = title config, description = description config,
             requireConfirmation = requireConfirmation config, onSubmit = onSubmit config,
             validatePassword = validatePassword config, isOpen = True\<rparr>\<rparr>)"

definition closePasswordDialog :: "'w sys \<Rightarrow> 'w sys" where
  "closePasswordDialog s = emit ClosePasswordDialog (s\<lparr>dialog := (dialog s)\<lparr>isOpen := False\<rparr>\<rparr>)"

definition handlePasswordDialogCancel :: "'w sys \<Rightarrow> 'w sys" where
  "handlePasswordDialogCancel s = emit (ToastError ''operation cancelled'') (closePasswordDialog s)"

text \<open>The dialog's \<open>onOpenChange\<close> handler: a dialog that reports itself closed is closed.\<close>

definition onOpenChange :: "bool \<Rightarrow> 'w sys \<Rightarrow> 'w sys" where
  "onOpenChange isOpen' s = (if \<not> isOpen' then closePasswordDialog s else s)"

subsection \<open>Password policy\<close>

text \<open>
  The \<open>validatePassword\<close> closure that \<open>importConfig\<close> hands to the dialog, and the one
  that \<open>exportConfig\<close> hands to it. \<open>length\<close> is the string's \<open>.length\<close>.
\<close>

definition import_validatePassword :: "string \<Rightarrow> validation" where
  "import_validatePassword password =
     (if length password < 4 then
        \<lparr>isValid = False, message = Some ''password must have at least 4 characters''\<rparr>
      else if length password > 50 then
        \<lparr>isValid = False, message = Some ''password must not exceed 50 characters''\<rparr>
      else \<lparr>isValid = True, message = None\<rparr>)"

definition export_validatePassword :: "string \<Rightarrow> validation" where
  "export_validatePassword password =
     (if length password < 4 then
        \<lparr>isValid = False, message = Some ''password must have at least 4 characters''\<rparr>
      else if length password > 50 then
        \<lparr>isValid = False, message = Some ''password must not exceed 50 characters''\<rparr>
      else \<lparr>isValid = True, message = None\<rparr>)"

subsection \<open>Import\<close>

text \<open>
  The format check of the decrypted configuration:
  \<open>!configData.version || !configData.backups || !Array.isArray(configData.backups)\<close>
  throws; otherwise the flow goes on with \<open>configData.backups\<close>.
\<close>

definition validate_configData :: "jsval \<Rightarrow> exn + jsval list" where
  "validate_configData configData =
     (case get_prop configData ''version'' of
        Inl e \<Rightarrow> Inl e
      | Inr version \<Rightarrow>
          if truthy version then
            (case get_prop configData ''backups'' of
               Inl e \<Rightarrow> Inl e
             | Inr backups \<Rightarrow>
                 if truthy backups then
                   (if isArray backups then Inr (elements backups) else Inl InvalidFormat)
                 else Inl InvalidFormat)
          else Inl InvalidFormat)"

text \<open>The \<open>try\<close> block of the import's \<open>onSubmit\<close>.\<close>

definition import_onSubmit_try ::
  "'w env \<Rightarrow> string \<Rightarrow> string \<Rightarrow> 'w sys \<Rightarrow> (exn + unit) \<times> 'w sys" where
  "import_onSubmit_try env fileContent password =
     andThen (stmt closePasswordDialog) (\<lambda>_.
     andThen (stmt (set_isImporting True)) (\<lambda>_.
     andThen (showStatus env StDecrypting False) (\<lambda>_.
     andThen (invoke_decrypt env fileContent password) (\<lambda>decryptedJson.
     andThen (call_JSON_parse env decryptedJson) (\<lambda>configData.
     andThen (\<lambda>s. (validate_configData configData, s)) (\<lambda>backups.
     andThen (stmt (logger Info ''start restoring backup data'')) (\<lambda>_.
     andThen (showStatus env StRestoring False) (\<lambda>_.
     andThen (invoke_restore env backups) (\<lambda>result.
       if length (failed result) > 0 then
         andThen (stmt (logger Warn ''some files failed to restore'')) (\<lambda>_.
           showStatus env
             (StImportedPartial (restoredCount result) (length (failed result))) False)
       else
         andThen (stmt (logger Info ''all files restored'')) (\<lambda>_.
           showStatus env (StImported (restoredCount result)) False))))))))))"

text \<open>The whole \<open>onSubmit\<close> of the import: \<open>try\<close>, \<open>catch\<close>, \<open>finally\<close>.\<close>

definition import_onSubmit ::
  "'w env \<Rightarrow> string \<Rightarrow> string \<Rightarrow> 'w sys \<Rightarrow> (exn + unit) \<times> 'w sys" where
  "import_onSubmit env fileContent password =
     try_finally
       (try_catch (import_onSubmit_try env fileContent password)
          (\<lambda>error.
             andThen (stmt (logger Error ''decryption failed'')) (\<lambda>_.
               showStatus env (StDecryptFailed error) True)))
       (set_isImporting False)"

definition importConfig_try :: "'w env \<Rightarrow> 'w sys \<Rightarrow> (exn + unit) \<times> 'w sys" where
  "importConfig_try env =
     andThen (call_open env) (\<lambda>selected.
       if truthy selected \<and> is_string selected then
         andThen (stmt (logger Info ''file selected'')) (\<lambda>_.
         andThen (call_readFile env (the_string selected)) (\<lambda>fileContent.
           if length fileContent = 0 then
             andThen (stmt (logger Warn ''file content is empty'')) (\<lambda>_.
               showStatus env StFileEmpty True)
           else
             stmt
               (showPasswordDialog
                  \<lparr>title = ''import configuration file'',
                   description = ''enter the password that decrypts the file'',
                   requireConfirmation = False,
                   onSubmit = ImportOnSubmit fileContent,
                   validatePassword = Some import_validatePassword\<rparr>)))
       else
         andThen (stmt (logger Warn ''no file selected'')) (\<lambda>_.
           showStatus env StNoFileSelected True))"

definition importConfig :: "'w env \<Rightarrow> 'w sys \<Rightarrow> (exn + unit) \<times> 'w sys" where
  "importConfig env =
     andThen (stmt (logger Info ''start importing configuration file'')) (\<lambda>_.
       try_catch (importConfig_try env)
         (\<lambda>error.
            andThen (stmt (logger Error ''file operation failed'')) (\<lambda>_.
              showStatus env (StFileOpFailed error) True)))"

subsection \<open>Export\<close>

text \<open>The object literal \<open>{version: '1.1.0', backupCount: ..., backups: ...}\<close>.\<close>

definition configData_of :: "jsval list \<Rightarrow> jsval" where
  "configData_of backupsWithContent =
     JObj [(''version'', JStr ''1.1.0''),
           (''backupCount'', JNum (int (length backupsWithContent))),
           (''backups'', JArr backupsWithContent)]"

text \<open>\<open>toISOString().slice(0, 19).replace(/:/g, '-')\<close> and the proposed file name.\<close>

definition defaultFileName :: "string \<Rightarrow> string" where
  "defaultFileName isoString =
     ''antigravity_encrypted_config_''
       @ map (\<lambda>c. if c = CHR '':'' then CHR ''-'' else c) (take 19 isoString) @ ''.enc''"

definition export_onSubmit_try ::
  "'w env \<Rightarrow> jsval list \<Rightarrow> string \<Rightarrow> 'w sys \<Rightarrow> (exn + unit) \<times> 'w sys" where
  "export_onSubmit_try env backupsWithContent password =
     andThen (stmt closePasswordDialog) (\<lambda>_.
     andThen (stmt (set_isExporting True)) (\<lambda>_.
     andThen (showStatus env StGenerating False) (\<lambda>_.
     andThen (call_JSON_stringify env (configData_of backupsWithContent)) (\<lambda>configJson.
     andThen (stmt (logger Info ''configuration data generated'')) (\<lambda>_.
     andThen (invoke_encrypt env configJson password) (\<lambda>encryptedData.
     andThen (call_save env (defaultFileName (Date_toISOString env))) (\<lambda>savePath.
       if truthy savePath \<and> is_string savePath then
         andThen (invoke_write env (the_string savePath) encryptedData) (\<lambda>_.
         andThen (showStatus env (StSaved (the_string savePath)) False) (\<lambda>_.
           stmt (logger Info ''export succeeded'')))
       else
         andThen (stmt (logger Warn ''no save location selected'')) (\<lambda>_.
           showStatus env StNoSaveLocation True))))))))"

definition export_onSubmit ::
  "'w env \<Rightarrow> jsval list \<Rightarrow> string \<Rightarrow> 'w sys \<Rightarrow> (exn + unit) \<times> 'w sys" where
  "export_onSubmit env backupsWithContent password =
     try_finally
       (try_catch (export_onSubmit_try env backupsWithContent password)
          (\<lambda>error.
             andThen (stmt (logger Error ''export failed'')) (\<lambda>_.
               showStatus env (StExportFailed error) True)))
       (set_isExporting False)"

definition exportConfig_try :: "'w env \<Rightarrow> 'w sys \<Rightarrow> (exn + unit) \<times> 'w sys" where
  "exportConfig_try env =
     andThen (showStatus env StCollecting False) (\<lambda>_.
     andThen (invoke_collect env) (\<lambda>backupsWithContent.
       if length backupsWithContent = 0 then
         andThen (stmt (logger Warn ''no user information found'')) (\<lambda>_.
           showStatus env StNoUserInfo True)
       else
         andThen (stmt (logger Info ''backup data found'')) (\<lambda>_.
           stmt
             (showPasswordDialog
                \<lparr>title = ''export configuration file'',
                 description = ''set the password that protects the exported file'',
                 requireConfirmation = True,
                 onSubmit = ExportOnSubmit backupsWithContent,
                 validatePassword = Some export_validatePassword\<rparr>))))"

definition exportConfig :: "'w env \<Rightarrow> 'w sys \<Rightarrow> (exn + unit) \<times> 'w sys" where
  "exportConfig env =
     andThen (stmt (logger Info ''start exporting configuration'')) (\<lambda>_.
       try_catch (exportConfig_try env)
         (\<lambda>error.
            andThen (stmt (logger Error ''checking data failed'')) (\<lambda>_.
              showStatus env (StCheckFailed error) True)))"

subsection \<open>Submitting, cancelling and dismissing the password dialog\<close>

text \<open>
  The dialog calls \<open>onSubmit\<close> as a function that returns nothing: the outcome of the
  handler's promise is dropped.
\<close>

definition call_onSubmit :: "'w env \<Rightarrow> callback \<Rightarrow> string \<Rightarrow> 'w sys \<Rightarrow> 'w sys" where
  "call_onSubmit env cb password s =
     (case cb of
        NoCallback \<Rightarrow> s
      | ImportOnSubmit fileContent \<Rightarrow> snd (import_onSubmit env fileContent password s)
      | ExportOnSubmit backupsWithContent \<Rightarrow>
          snd (export_onSubmit env backupsWithContent password s))"

text \<open>
  Modelled from the spec: the password-entry component \<open>PasswordDialog\<close>, which the
  application shell renders with the stored configuration, is not among the sources.
  The specification says of it that it supplies one password (import) or a confirmed
  pair (export, checked for equality), and that the synchronous validation callback is
  applied before the input is accepted. An input that is not accepted leaves the dialog
  as it is; an accepted one is passed to \<open>onSubmit\<close>.
\<close>

definition PasswordDialog_submit :: "'w env \<Rightarrow> string \<Rightarrow> string \<Rightarrow> 'w sys \<Rightarrow> 'w sys" where
  "PasswordDialog_submit env password confirmation s =
     (if isOpen (dialog s) then
        (case validatePassword (dialog s) of
           None \<Rightarrow>
             if requireConfirmation (dialog s) \<and> confirmation \<noteq> password then s
             else call_onSubmit env (onSubmit (dialog s)) password s
         | Some validate \<Rightarrow>
             if isValid (validate password) then
               (if requireConfirmation (dialog s) \<and> confirmation \<noteq> password then s
                else call_onSubmit env (onSubmit (dialog s)) password s)
             else s)
      else s)"

text \<open>
  What the user does with the dialog once it is open: submit a password (with its
  confirmation); cancel, which runs \<open>handlePasswordDialogCancel\<close>; or dismiss it, which
  runs \<open>onOpenChange\<close> with \<open>false\<close>.
\<close>

datatype user_action = Submit string string | Cancel | Dismiss

definition dialog_step :: "'w env \<Rightarrow> user_action \<Rightarrow> 'w sys \<Rightarrow> 'w sys" where
  "dialog_step env a s =
     (case a of
        Submit password confirmation \<Rightarrow> PasswordDialog_submit env password confirmation s
      | Cancel \<Rightarrow> if isOpen (dialog s) then handlePasswordDialogCancel s else s
      | Dismiss \<Rightarrow> if isOpen (dialog s) then onOpenChange False s else s)"

text \<open>
  One whole flow: the operation, whose promise nobody awaits, then the user's action on
  the dialog if one is open.
\<close>

definition import_run :: "'w env \<Rightarrow> user_action \<Rightarrow> 'w sys \<Rightarrow> 'w sys" where
  "import_run env a s = dialog_step env a (snd (importConfig env s))"

definition export_run :: "'w env \<Rightarrow> user_action \<Rightarrow> 'w sys \<Rightarrow> 'w sys" where
  "export_run env a s = dialog_step env a (snd (exportConfig env s))"

text \<open>The events an operation added to the trace.\<close>

definition new_events :: "'w sys \<Rightarrow> 'w sys \<Rightarrow> event list" where
  "new_events s s' = drop (length (trace s)) (trace s')"

subsection \<open>Notions used to state the properties\<close>

text \<open>
  The structural check as the specification words it for \<open>fromText\<close>: \<open>version\<close> is
  present, \<open>backups\<close> is present and a sequence, and \<open>backupCount\<close> equals the length of
  \<open>backups\<close>.
\<close>

definition spec_fromText_accepts :: "jsval \<Rightarrow> bool" where
  "spec_fromText_accepts v =
     (case v of
        JObj kvs \<Rightarrow>
          (case map_of kvs ''version'' of
             None \<Rightarrow> False
           | Some version \<Rightarrow>
               (case map_of kvs ''backups'' of
                  Some (JArr backups) \<Rightarrow>
                    map_of kvs ''backupCount'' = Some (JNum (int (length backups)))
                | _ \<Rightarrow> False))
      | _ \<Rightarrow> False)"

text \<open>
  What the import's \<open>onSubmit\<close> would obtain from its collaborators before the restore:
  the decrypted text, parsed and checked.
\<close>

definition import_decode :: "'w env \<Rightarrow> string \<Rightarrow> string \<Rightarrow> exn + jsval list" where
  "import_decode env fileContent password =
     (case decrypt_config_data env fileContent password of
        Inl e \<Rightarrow> Inl e
      | Inr decryptedJson \<Rightarrow>
          (case JSON_parse env decryptedJson of
             Inl e \<Rightarrow> Inl e
           | Inr configData \<Rightarrow> validate_configData configData))"




fun is_store_event :: "event \<Rightarrow> bool" where
  "is_store_event (StoreState i e c) = True"
| "is_store_event e = False"

fun is_invoke :: "event \<Rightarrow> bool" where
  "is_invoke (Invoke c) = True"
| "is_invoke e = False"

subsection \<open>A concrete environment\<close>

text \<open>
  A small world for evaluating the operations, with \<open>showStatus\<close> unbound as in the
  repository: the world is a list of files by path; the file \<open>cfg.enc\<close> holds a bundle
  of one backup entry, protected by the password \<open>abcd\<close>.
\<close>

definition demo_backups :: "jsval list" where
  "demo_backups =
     [JObj [(''filename'', JStr ''a.json''), (''content'', JStr ''x''), (''timestamp'', JNum 1)]]"

definition demo_env :: "(string \<times> string) list env" where
  "demo_env =
     \<lparr>showStatus_global = Unbound,
      dialog_open = Inr (JStr ''cfg.enc''),
      readFile = (\<lambda>p w. case map_of w p of None \<Rightarrow> Inl (Rejected ''no such file'') | Some c \<Rightarrow> Inr c),
      decrypt_config_data =
        (\<lambda>d p. if p = ''abcd'' then Inr d else Inl (Rejected ''wrong password'')),
      JSON_parse =
        (\<lambda>t. if t = ''bundle'' then Inr (configData_of demo_backups)
             else Inl (Rejected ''SyntaxError'')),
      restore_backup_files =
        (\<lambda>bs w. (Inr \<lparr>restoredCount = length bs, failed = []\<rparr>, (''a.json'', ''x'') # w)),
      collect_backup_contents = (\<lambda>w. Inr demo_backups),
      JSON_stringify = (\<lambda>v. ''bundle''),
      encrypt_config_data = (\<lambda>t p. Inr t),
      Date_toISOString = ''2025-01-02T03:04:05.678Z'',
      dialog_save = (\<lambda>n. Inr (JStr ''out.enc'')),
      write_text_file = (\<lambda>p c w. (Inr (), (p, c) # w))\<rparr>"

definition demo_sys :: "(string \<times> string) list sys" where
  "demo_sys =
     \<lparr>isImporting = False, isExporting = False, isCheckingData = False,
      dialog = initial_passwordDialog, world = [(''cfg.enc'', ''bundle'')], trace = []\<rparr>"

section \<open>Properties\<close>

subsection \<open>What each operation does\<close>

lemmas effect_defs =
  emit_def logger_def publish_def set_isImporting_def set_isExporting_def
  showPasswordDialog_def closePasswordDialog_def handlePasswordDialogCancel_def onOpenChange_def

lemmas call_defs =
  showStatus_def call_open_def call_readFile_def invoke_decrypt_def call_JSON_parse_def
  invoke_restore_def invoke_collect_def call_JSON_stringify_def invoke_encrypt_def
  call_save_def invoke_write_def

lemma new_events_append: "trace s' = trace s @ es \<Longrightarrow> new_events s s' = es"
  by (simp add: new_events_def)

lemma andThen_stmt: "andThen (stmt f) k s = k () (f s)"
  by (simp add: andThen_def stmt_def)

lemma andThen_pair: "andThen (\<lambda>s. (r, g s)) k s = (case r of Inl e \<Rightarrow> (Inl e, g s) | Inr x \<Rightarrow> k x (g s))"
  by (simp add: andThen_def split: sum.splits)

lemma andThen_calls:
  "andThen (call_open env) k s =
     (case dialog_open env of Inl e \<Rightarrow> (Inl e, emit DialogOpen s) | Inr x \<Rightarrow> k x (emit DialogOpen s))"
  "andThen (call_readFile env path) k1 s =
     (case readFile env path (world s) of
        Inl e \<Rightarrow> (Inl e, emit (ReadFile path) s) | Inr x \<Rightarrow> k1 x (emit (ReadFile path) s))"
  "andThen (invoke_decrypt env d p) k1 s =
     (case decrypt_config_data env d p of
        Inl e \<Rightarrow> (Inl e, emit (Invoke (DecryptConfigData d p)) s)
      | Inr x \<Rightarrow> k1 x (emit (Invoke (DecryptConfigData d p)) s))"
  "andThen (call_JSON_parse env t) k s =
     (case JSON_parse env t of
        Inl e \<Rightarrow> (Inl e, emit (JSONParse t) s) | Inr x \<Rightarrow> k x (emit (JSONParse t) s))"
  "andThen (invoke_restore env bs) k2 s =
     (case fst (restore_backup_files env bs (world s)) of
        Inl e \<Rightarrow>
          (Inl e, (emit (Invoke (RestoreBackupFiles bs)) s)
                    \<lparr>world := snd (restore_backup_files env bs (world s))\<rparr>)
      | Inr x \<Rightarrow>
          k2 x ((emit (Invoke (RestoreBackupFiles bs)) s)
                  \<lparr>world := snd (restore_backup_files env bs (world s))\<rparr>))"
  "andThen (invoke_collect env) k3 s =
     (case collect_backup_contents env (world s) of
        Inl e \<Rightarrow> (Inl e, emit (Invoke CollectBackupContents) s)
      | Inr x \<Rightarrow> k3 x (emit (Invoke CollectBackupContents) s))"
  "andThen (call_JSON_stringify env v) k1 s = k1 (JSON_stringify env v) (emit (JSONStringify v) s)"
  "andThen (invoke_encrypt env t p) k1 s =
     (case encrypt_config_data env t p of
        Inl e \<Rightarrow> (Inl e, emit (Invoke (EncryptConfigData t p)) s)
      | Inr x \<Rightarrow> k1 x (emit (Invoke (EncryptConfigData t p)) s))"
  "andThen (call_save env n) k s =
     (case dialog_save env n of
        Inl e \<Rightarrow> (Inl e, emit (DialogSave n) s) | Inr x \<Rightarrow> k x (emit (DialogSave n) s))"
  "andThen (invoke_write env path c) k4 s =
     (case fst (write_text_file env path c (world s)) of
        Inl e \<Rightarrow>
          (Inl e, (emit (Invoke (WriteTextFile path c)) s)
                    \<lparr>world := snd (write_text_file env path c (world s))\<rparr>)
      | Inr x \<Rightarrow>
          k4 x ((emit (Invoke (WriteTextFile path c)) s)
                  \<lparr>world := snd (write_text_file env path c (world s))\<rparr>))"
  by (simp_all add: andThen_def call_defs split: sum.splits)

lemma andThen_showStatus:
  "andThen (showStatus env m b) k s =
     (case showStatus_global env of
        Unbound \<Rightarrow> (Inl ReferenceError, s)
      | Reporter \<Rightarrow> k () (emit (ShowStatus m b) s))"
  by (simp add: andThen_def showStatus_def split: binding.splits)

lemmas run_simps =
  andThen_stmt andThen_pair andThen_calls andThen_showStatus showStatus_def stmt_def
  try_catch_def try_finally_def

text \<open>With \<open>showStatus\<close> unbound, as in the repository.\<close>

lemma import_onSubmit_unbound:
  assumes "showStatus_global env = Unbound"
  shows "import_onSubmit env fc p s =
    (Inl ReferenceError,
     s\<lparr>isImporting := False, dialog := (dialog s)\<lparr>isOpen := False\<rparr>,
       trace := trace s @
         [ClosePasswordDialog, StoreState True (isExporting s) (isCheckingData s),
          Log Error ''decryption failed'',
          StoreState False (isExporting s) (isCheckingData s)]\<rparr>)"
  using assms
  by (simp add: import_onSubmit_def import_onSubmit_try_def run_simps effect_defs)

lemma export_onSubmit_unbound:
  assumes "showStatus_global env = Unbound"
  shows "export_onSubmit env bs p s =
    (Inl ReferenceError,
     s\<lparr>isExporting := False, dialog := (dialog s)\<lparr>isOpen := False\<rparr>,
       trace := trace s @
         [ClosePasswordDialog, StoreState (isImporting s) True (isCheckingData s),
          Log Error ''export failed'',
          StoreState (isImporting s) False (isCheckingData s)]\<rparr>)"
  using assms
  by (simp add: export_onSubmit_def export_onSubmit_try_def run_simps effect_defs)

lemma exportConfig_unbound:
  assumes "showStatus_global env = Unbound"
  shows "exportConfig env s =
    (Inl ReferenceError,
     s\<lparr>trace := trace s @
         [Log Info ''start exporting configuration'', Log Error ''checking data failed'']\<rparr>)"
  using assms
  by (simp add: exportConfig_def exportConfig_try_def run_simps effect_defs)

lemma importConfig_unbound_cancel:
  assumes "showStatus_global env = Unbound"
    and "dialog_open env = Inr selected" and "\<not> (truthy selected \<and> is_string selected)"
  shows "importConfig env s =
    (Inl ReferenceError,
     s\<lparr>trace := trace s @
         [Log Info ''start importing configuration file'', DialogOpen,
          Log Warn ''no file selected'', Log Error ''file operation failed'']\<rparr>)"
  using assms
  by (auto simp: importConfig_def importConfig_try_def run_simps effect_defs)

text \<open>Whatever \<open>showStatus\<close> is bound to.\<close>

lemma importConfig_trace:
  "trace (snd (importConfig env s)) =
     trace s @
     [Log Info ''start importing configuration file'', DialogOpen] @
     (case dialog_open env of
        Inl e \<Rightarrow>
          Log Error ''file operation failed'' #
          (case showStatus_global env of
             Unbound \<Rightarrow> [] | Reporter \<Rightarrow> [ShowStatus (StFileOpFailed e) True])
      | Inr selected \<Rightarrow>
          if truthy selected \<and> is_string selected then
            [Log Info ''file selected'', ReadFile (the_string selected)] @
            (case readFile env (the_string selected) (world s) of
               Inl e \<Rightarrow>
                 Log Error ''file operation failed'' #
                 (case showStatus_global env of
                    Unbound \<Rightarrow> [] | Reporter \<Rightarrow> [ShowStatus (StFileOpFailed e) True])
             | Inr fileContent \<Rightarrow>
                 if fileContent = [] then
                   Log Warn ''file content is empty'' #
                   (case showStatus_global env of
                      Unbound \<Rightarrow> [Log Error ''file operation failed'']
                    | Reporter \<Rightarrow> [ShowStatus StFileEmpty True])
                 else [ShowPasswordDialog ''import configuration file'' False])
          else
            Log Warn ''no file selected'' #
            (case showStatus_global env of
               Unbound \<Rightarrow> [Log Error ''file operation failed'']
             | Reporter \<Rightarrow> [ShowStatus StNoFileSelected True]))"
  by (simp add: importConfig_def importConfig_try_def run_simps effect_defs
      split: sum.splits binding.splits)

lemma importConfig_state:
  "world (snd (importConfig env s)) = world s"
  "isImporting (snd (importConfig env s)) = isImporting s"
  "isExporting (snd (importConfig env s)) = isExporting s"
  "isCheckingData (snd (importConfig env s)) = isCheckingData s"
  by (simp_all add: importConfig_def importConfig_try_def run_simps effect_defs
      split: sum.splits binding.splits)

lemma importConfig_dialog:
  "dialog (snd (importConfig env s)) =
     (case dialog_open env of
        Inl e \<Rightarrow> dialog s
      | Inr selected \<Rightarrow>
          if truthy selected \<and> is_string selected then
            (case readFile env (the_string selected) (world s) of
               Inl e \<Rightarrow> dialog s
             | Inr fileContent \<Rightarrow>
                 if fileContent = [] then dialog s
                 else
                   \<lparr>title = ''import configuration file'',
                    description = ''enter the password that decrypts the file'',
                    requireConfirmation = False, onSubmit = ImportOnSubmit fileContent,
                    validatePassword = Some import_validatePassword, isOpen = True\<rparr>)
          else dialog s)"
  by (simp add: importConfig_def importConfig_try_def run_simps effect_defs
      split: sum.splits binding.splits)

lemma exportConfig_state:
  "world (snd (exportConfig env s)) = world s"
  "isImporting (snd (exportConfig env s)) = isImporting s"
  "isExporting (snd (exportConfig env s)) = isExporting s"
  "isCheckingData (snd (exportConfig env s)) = isCheckingData s"
  by (simp_all add: exportConfig_def exportConfig_try_def run_simps effect_defs
      split: sum.splits binding.splits)

lemma exportConfig_trace:
  "trace (snd (exportConfig env s)) =
     trace s @
     Log Info ''start exporting configuration'' #
     (case showStatus_global env of
        Unbound \<Rightarrow> [Log Error ''checking data failed'']
      | Reporter \<Rightarrow>
          [ShowStatus StCollecting False, Invoke CollectBackupContents] @
          (case collect_backup_contents env (world s) of
             Inl e \<Rightarrow> [Log Error ''checking data failed'', ShowStatus (StCheckFailed e) True]
           | Inr bs \<Rightarrow>
               if bs = [] then
                 [Log Warn ''no user information found'', ShowStatus StNoUserInfo True]
               else
                 [Log Info ''backup data found'',
                  ShowPasswordDialog ''export configuration file'' True]))"
  by (simp add: exportConfig_def exportConfig_try_def run_simps effect_defs
      split: sum.splits binding.splits)

lemma exportConfig_dialog:
  "dialog (snd (exportConfig env s)) =
     (case showStatus_global env of
        Unbound \<Rightarrow> dialog s
      | Reporter \<Rightarrow>
          (case collect_backup_contents env (world s) of
             Inl e \<Rightarrow> dialog s
           | Inr bs \<Rightarrow>
               if bs = [] then dialog s
               else
                 \<lparr>title = ''export configuration file'',
                  description = ''set the password that protects the exported file'',
                  requireConfirmation = True, onSubmit = ExportOnSubmit bs,
                  validatePassword = Some export_validatePassword, isOpen = True\<rparr>))"
  by (simp add: exportConfig_def exportConfig_try_def run_simps effect_defs
      split: sum.splits binding.splits)

lemma import_onSubmit_trace:
  "trace (snd (import_onSubmit env fc p s)) =
     trace s @
     [ClosePasswordDialog, StoreState True (isExporting s) (isCheckingData s)] @
     (case showStatus_global env of
        Unbound \<Rightarrow> [Log Error ''decryption failed'']
      | Reporter \<Rightarrow>
          [ShowStatus StDecrypting False, Invoke (DecryptConfigData fc p)] @
          (case decrypt_config_data env fc p of
             Inl e \<Rightarrow> [Log Error ''decryption failed'', ShowStatus (StDecryptFailed e) True]
           | Inr json \<Rightarrow>
               JSONParse json #
               (case JSON_parse env json of
                  Inl e \<Rightarrow> [Log Error ''decryption failed'', ShowStatus (StDecryptFailed e) True]
                | Inr v \<Rightarrow>
                    (case validate_configData v of
                       Inl e \<Rightarrow>
                         [Log Error ''decryption failed'', ShowStatus (StDecryptFailed e) True]
                     | Inr bs \<Rightarrow>
                         [Log Info ''start restoring backup data'', ShowStatus StRestoring False,
                          Invoke (RestoreBackupFiles bs)] @
                         (case fst (restore_backup_files env bs (world s)) of
                            Inl e \<Rightarrow>
                              [Log Error ''decryption failed'',
                               ShowStatus (StDecryptFailed e) True]
                          | Inr r \<Rightarrow>
                              if failed r \<noteq> [] then
                                [Log Warn ''some files failed to restore'',
                                 ShowStatus
                                   (StImportedPartial (restoredCount r) (length (failed r)))
                                   False]
                              else
                                [Log Info ''all files restored'',
                                 ShowStatus (StImported (restoredCount r)) False]))))) @
     [StoreState False (isExporting s) (isCheckingData s)]"
  by (simp add: import_onSubmit_def import_onSubmit_try_def run_simps effect_defs
      split: sum.splits binding.splits)

lemma import_onSubmit_world:
  "world (snd (import_onSubmit env fc p s)) =
     (case showStatus_global env of
        Unbound \<Rightarrow> world s
      | Reporter \<Rightarrow>
          (case import_decode env fc p of
             Inl e \<Rightarrow> world s
           | Inr bs \<Rightarrow> snd (restore_backup_files env bs (world s))))"
  by (simp add: import_onSubmit_def import_onSubmit_try_def import_decode_def run_simps effect_defs split: sum.splits binding.splits)

lemma import_onSubmit_state:
  "isImporting (snd (import_onSubmit env fc p s)) = False"
  "isExporting (snd (import_onSubmit env fc p s)) = isExporting s"
  "dialog (snd (import_onSubmit env fc p s)) = (dialog s)\<lparr>isOpen := False\<rparr>"
  by (simp_all add: import_onSubmit_def import_onSubmit_try_def run_simps effect_defs
      split: sum.splits binding.splits)

lemma export_onSubmit_trace:
  "trace (snd (export_onSubmit env bs p s)) =
     trace s @
     [ClosePasswordDialog, StoreState (isImporting s) True (isCheckingData s)] @
     (case showStatus_global env of
        Unbound \<Rightarrow> [Log Error ''export failed'']
      | Reporter \<Rightarrow>
          [ShowStatus StGenerating False, JSONStringify (configData_of bs),
           Log Info ''configuration data generated'',
           Invoke (EncryptConfigData (JSON_stringify env (configData_of bs)) p)] @
          (case encrypt_config_data env (JSON_stringify env (configData_of bs)) p of
             Inl e \<Rightarrow> [Log Error ''export failed'', ShowStatus (StExportFailed e) True]
           | Inr encryptedData \<Rightarrow>
               DialogSave (defaultFileName (Date_toISOString env)) #
               (case dialog_save env (defaultFileName (Date_toISOString env)) of
                  Inl e \<Rightarrow> [Log Error ''export failed'', ShowStatus (StExportFailed e) True]
                | Inr savePath \<Rightarrow>
                    if truthy savePath \<and> is_string savePath then
                      Invoke (WriteTextFile (the_string savePath) encryptedData) #
                      (case fst (write_text_file env (the_string savePath) encryptedData
                                   (world s)) of
                         Inl e \<Rightarrow> [Log Error ''export failed'', ShowStatus (StExportFailed e) True]
                       | Inr u \<Rightarrow>
                           [ShowStatus (StSaved (the_string savePath)) False,
                            Log Info ''export succeeded''])
                    else
                      [Log Warn ''no save location selected'',
                       ShowStatus StNoSaveLocation True]))) @
     [StoreState (isImporting s) False (isCheckingData s)]"
  by (simp add: export_onSubmit_def export_onSubmit_try_def run_simps effect_defs
      split: sum.splits binding.splits)

lemma export_onSubmit_state:
  "isExporting (snd (export_onSubmit env bs p s)) = False"
  "isImporting (snd (export_onSubmit env bs p s)) = isImporting s"
  "dialog (snd (export_onSubmit env bs p s)) = (dialog s)\<lparr>isOpen := False\<rparr>"
  by (simp_all add: export_onSubmit_def export_onSubmit_try_def run_simps effect_defs
      split: sum.splits binding.splits)

lemma import_onSubmit_result:
  "fst (import_onSubmit env fc p s) =
     (case showStatus_global env of Unbound \<Rightarrow> Inl ReferenceError | Reporter \<Rightarrow> Inr ())"
  by (simp add: import_onSubmit_def import_onSubmit_try_def run_simps effect_defs
      split: sum.splits binding.splits)

lemma importConfig_invokes:
  "filter is_invoke (new_events s (snd (importConfig env s))) = []"
  by (simp add: new_events_append [OF importConfig_trace] split: sum.splits binding.splits)

lemma exportConfig_invokes:
  "filter is_invoke (new_events s (snd (exportConfig env s))) =
     (case showStatus_global env of Unbound \<Rightarrow> [] | Reporter \<Rightarrow> [Invoke CollectBackupContents])"
  by (simp add: new_events_append [OF exportConfig_trace] split: sum.splits binding.splits)

subsection \<open>Password policy\<close>

lemma import_run_rejected:
  assumes "\<not> isOpen (dialog s)" and "\<not> (4 \<le> length p \<and> length p \<le> 50)"
  shows "import_run env (Submit p c) s = snd (importConfig env s)"
  using assms
  by (auto simp: import_run_def dialog_step_def PasswordDialog_submit_def importConfig_dialog
      import_validatePassword_def split: sum.splits)

lemma export_run_rejected:
  assumes "\<not> isOpen (dialog s)" and "\<not> (4 \<le> length p \<and> length p \<le> 50)"
  shows "export_run env (Submit p c) s = snd (exportConfig env s)"
  using assms
  by (auto simp: export_run_def dialog_step_def PasswordDialog_submit_def exportConfig_dialog
      export_validatePassword_def split: sum.splits binding.splits)

text \<open>
  C6. The validation that \<open>importConfig\<close> and \<open>exportConfig\<close> hand to the password
  dialog accepts a password exactly when its length is between 4 and 50 inclusive. A
  password outside that range, submitted to the dialog of either flow, is not passed
  on: the import flow has invoked no backend command at all, and the export flow none
  but the collection that a bound reporter lets it reach, so neither a decryption nor
  an encryption is called.
\<close>

theorem password_policy:
  "(isValid (import_validatePassword p) \<longleftrightarrow> 4 \<le> length p \<and> length p \<le> 50) \<and>
   (isValid (export_validatePassword p) \<longleftrightarrow> 4 \<le> length p \<and> length p \<le> 50) \<and>
   (\<not> isOpen (dialog s) \<and> \<not> (4 \<le> length p \<and> length p \<le> 50) \<longrightarrow>
      filter is_invoke (new_events s (import_run env (Submit p c) s)) = [] \<and>
      filter is_invoke (new_events s (export_run env (Submit p c) s)) =
        (case showStatus_global env of
           Unbound \<Rightarrow> []
         | Reporter \<Rightarrow> [Invoke CollectBackupContents]))"
proof -
  have "isValid (import_validatePassword p) \<longleftrightarrow> 4 \<le> length p \<and> length p \<le> 50"
    by (auto simp: import_validatePassword_def)
  moreover have "isValid (export_validatePassword p) \<longleftrightarrow> 4 \<le> length p \<and> length p \<le> 50"
    by (auto simp: export_validatePassword_def)
  moreover have
    "filter is_invoke (new_events s (import_run env (Submit p c) s)) = [] \<and>
     filter is_invoke (new_events s (export_run env (Submit p c) s)) =
       (case showStatus_global env of
          Unbound \<Rightarrow> []
        | Reporter \<Rightarrow> [Invoke CollectBackupContents])"
    if "\<not> isOpen (dialog s)" and "\<not> (4 \<le> length p \<and> length p \<le> 50)"
    using that
    by (simp add: import_run_rejected export_run_rejected importConfig_invokes
        exportConfig_invokes)
  ultimately show ?thesis by blast
qed

theorem password_policy_witness:
  "\<not> isValid (import_validatePassword ''abc'') \<and>
   isValid (import_validatePassword ''abcd'') \<and>
   isValid (export_validatePassword (replicate 50 CHR ''a'')) \<and>
   \<not> isValid (export_validatePassword (replicate 51 CHR ''a'')) \<and>
   filter is_invoke (new_events demo_sys (import_run demo_env (Submit ''abc'' ''abc'') demo_sys)) = [] \<and>
   filter is_invoke (new_events demo_sys (export_run demo_env (Submit ''abc'' ''abc'') demo_sys)) = []"
  using password_policy [where p = "''abc''" and s = demo_sys and env = demo_env and c = "''abc''"]
    password_policy [where p = "''abcd''" and s = demo_sys and env = demo_env and c = "''abcd''"]
    password_policy [where p = "replicate 50 CHR ''a''" and s = demo_sys and env = demo_env and c = "[]"]
    password_policy [where p = "replicate 51 CHR ''a''" and s = demo_sys and env = demo_env and c = "[]"]
  by (simp add: demo_sys_def demo_env_def initial_passwordDialog_def)

subsection \<open>Structural validation on import\<close>

lemma validate_configData_Inr_iff:
  "validate_configData v = Inr bs \<longleftrightarrow>
     (\<exists>kvs version. v = JObj kvs \<and> map_of kvs ''version'' = Some version \<and> truthy version \<and>
        map_of kvs ''backups'' = Some (JArr bs))"
proof (cases v)
  case (JObj kvs)
  show ?thesis
  proof (cases "map_of kvs ''version''")
    case None
    with JObj show ?thesis by (simp add: validate_configData_def)
  next
    case (Some version)
    show ?thesis
    proof (cases "map_of kvs ''backups''")
      case None
      with JObj Some show ?thesis by (simp add: validate_configData_def)
    next
      case backups: (Some b)
      with JObj Some show ?thesis
        by (cases b) (auto simp: validate_configData_def)
    qed
  qed
qed (simp_all add: validate_configData_def)

lemma import_decode_Inl_iff:
  "import_decode env fc p = Inl e \<longleftrightarrow>
     decrypt_config_data env fc p = Inl e \<or>
     (\<exists>json. decrypt_config_data env fc p = Inr json \<and>
        (JSON_parse env json = Inl e \<or>
         (\<exists>v. JSON_parse env json = Inr v \<and> validate_configData v = Inl e)))"
  by (auto simp: import_decode_def split: sum.splits)

lemma import_onSubmit_failure:
  assumes "import_decode env fc p = Inl e"
  shows "new_events s (snd (import_onSubmit env fc p s)) =
           [ClosePasswordDialog, StoreState True (isExporting s) (isCheckingData s)] @
           (case showStatus_global env of
              Unbound \<Rightarrow> [Log Error ''decryption failed'']
            | Reporter \<Rightarrow>
                [ShowStatus StDecrypting False, Invoke (DecryptConfigData fc p)] @
                (case decrypt_config_data env fc p of
                   Inl e' \<Rightarrow> []
                 | Inr json \<Rightarrow> [JSONParse json]) @
                [Log Error ''decryption failed'', ShowStatus (StDecryptFailed e) True]) @
           [StoreState False (isExporting s) (isCheckingData s)]"
  using assms
  by (auto simp: import_decode_def new_events_append [OF import_onSubmit_trace]
      split: sum.splits binding.splits)

text \<open>
  C1 (as amended). The format check made on the decrypted payload lets a payload pass
  exactly when it is an object whose \<open>version\<close> is present and truthy and whose \<open>backups\<close>
  is an array; every other payload is rejected. \<open>backupCount\<close> is not examined. When the
  payload that the collaborators would deliver is one the check rejects, the submit
  handler invokes no restore: it invokes nothing when \<open>showStatus\<close> is unbound, and the
  decryption only when a reporter is bound; the world is as it was.
\<close>

theorem import_validation:
  "(validate_configData v = Inr bs \<longleftrightarrow>
      (\<exists>kvs version. v = JObj kvs \<and> map_of kvs ''version'' = Some version \<and>
         truthy version \<and> map_of kvs ''backups'' = Some (JArr bs))) \<and>
   (decrypt_config_data env fc p = Inr json \<and> JSON_parse env json = Inr v \<and>
    validate_configData v = Inl e \<longrightarrow>
      filter is_invoke (new_events s (snd (import_onSubmit env fc p s))) =
        (case showStatus_global env of
           Unbound \<Rightarrow> []
         | Reporter \<Rightarrow> [Invoke (DecryptConfigData fc p)]) \<and>
      world (snd (import_onSubmit env fc p s)) = world s)"
proof -
  have "filter is_invoke (new_events s (snd (import_onSubmit env fc p s))) =
          (case showStatus_global env of
             Unbound \<Rightarrow> []
           | Reporter \<Rightarrow> [Invoke (DecryptConfigData fc p)]) \<and>
        world (snd (import_onSubmit env fc p s)) = world s"
    if "decrypt_config_data env fc p = Inr json" "JSON_parse env json = Inr v"
      "validate_configData v = Inl e"
  proof -
    from that have "import_decode env fc p = Inl e"
      by (simp add: import_decode_def)
    then show ?thesis
      by (simp add: import_onSubmit_failure import_onSubmit_world
          split: sum.splits binding.splits)
  qed
  with validate_configData_Inr_iff [of v bs] show ?thesis by blast
qed

theorem import_validation_witness:
  "validate_configData (JObj [(''version'', JStr ''1.1.0''), (''backups'', JArr [JNull])]) =
     Inr [JNull] \<and>
   validate_configData (JObj [(''version'', JStr ''1.1.0'')]) = Inl InvalidFormat \<and>
   filter is_invoke
     (new_events demo_sys
        (snd (import_onSubmit
           (demo_env\<lparr>JSON_parse := (\<lambda>t. Inr (JObj [(''version'', JStr ''1.1.0'')]))\<rparr>)
           ''bundle'' ''abcd'' demo_sys))) = [] \<and>
   world
     (snd (import_onSubmit
        (demo_env\<lparr>JSON_parse := (\<lambda>t. Inr (JObj [(''version'', JStr ''1.1.0'')]))\<rparr>)
        ''bundle'' ''abcd'' demo_sys)) = [(''cfg.enc'', ''bundle'')]"
  using
    import_validation
      [where v = "JObj [(''version'', JStr ''1.1.0''), (''backups'', JArr [JNull])]"
         and bs = "[JNull]" and env = demo_env and fc = "[]" and p = "[]" and json = "[]"
         and e = InvalidFormat and s = demo_sys]
    import_validation
      [where v = "JObj [(''version'', JStr ''1.1.0'')]" and bs = "[]"
         and env = "demo_env\<lparr>JSON_parse := (\<lambda>t. Inr (JObj [(''version'', JStr ''1.1.0'')]))\<rparr>"
         and fc = "''bundle''" and p = "''abcd''" and json = "''bundle''"
         and e = InvalidFormat and s = demo_sys]
  by (simp add: demo_env_def demo_sys_def validate_configData_def)

text \<open>
  C1 as the specification states it fails: a payload whose \<open>backupCount\<close> is 5 and whose
  \<open>backups\<close> is empty is not accepted by the check as specified, yet the check of the
  code lets it pass.
\<close>

theorem backupCount_unchecked_counterexample:
  "get_prop (JObj [(''version'', JStr ''1.1.0''), (''backupCount'', JNum 5), (''backups'', JArr [])])
     ''backupCount'' = Inr (JNum 5) \<and>
   \<not> spec_fromText_accepts
       (JObj [(''version'', JStr ''1.1.0''), (''backupCount'', JNum 5), (''backups'', JArr [])]) \<and>
   validate_configData
     (JObj [(''version'', JStr ''1.1.0''), (''backupCount'', JNum 5), (''backups'', JArr [])]) =
     Inr []"
  by (simp add: spec_fromText_accepts_def validate_configData_def)

subsection \<open>Failures before the restore\<close>

text \<open>
  C3. If the decryption would fail, or the decrypted text would not parse, or the parsed
  payload would fail the format check, the import's submit handler aborts with an
  error and invokes no restore; the world is unchanged and the flag is reset. With
  \<open>showStatus\<close> unbound the error is the \<open>ReferenceError\<close> of the first status call, which
  comes before the decryption, and the handler's promise is rejected; with a reporter
  bound the error is the failure itself, shown as an error status.
\<close>

theorem import_failure_restores_nothing:
  assumes
    "decrypt_config_data env fc p = Inl e \<or>
     (\<exists>json. decrypt_config_data env fc p = Inr json \<and>
        (JSON_parse env json = Inl e \<or>
         (\<exists>v. JSON_parse env json = Inr v \<and> validate_configData v = Inl e)))"
  shows
    "fst (import_onSubmit env fc p s) =
       (case showStatus_global env of Unbound \<Rightarrow> Inl ReferenceError | Reporter \<Rightarrow> Inr ()) \<and>
     new_events s (snd (import_onSubmit env fc p s)) =
       [ClosePasswordDialog, StoreState True (isExporting s) (isCheckingData s)] @
       (case showStatus_global env of
          Unbound \<Rightarrow> [Log Error ''decryption failed'']
        | Reporter \<Rightarrow>
            [ShowStatus StDecrypting False, Invoke (DecryptConfigData fc p)] @
            (case decrypt_config_data env fc p of
               Inl e' \<Rightarrow> []
             | Inr json \<Rightarrow> [JSONParse json]) @
            [Log Error ''decryption failed'', ShowStatus (StDecryptFailed e) True]) @
       [StoreState False (isExporting s) (isCheckingData s)] \<and>
     (\<forall>bs. Invoke (RestoreBackupFiles bs) \<notin> set (new_events s (snd (import_onSubmit env fc p s)))) \<and>
     world (snd (import_onSubmit env fc p s)) = world s \<and>
     \<not> isImporting (snd (import_onSubmit env fc p s))"
proof -
  from assms have "import_decode env fc p = Inl e"
    by (simp only: import_decode_Inl_iff)
  then show ?thesis
    by (simp add: import_onSubmit_failure import_onSubmit_world import_onSubmit_state
        import_onSubmit_result split: sum.splits binding.splits)
qed

theorem import_failure_restores_nothing_witness:
  "import_onSubmit demo_env ''bundle'' ''wxyz'' demo_sys =
     (Inl ReferenceError,
      demo_sys\<lparr>trace :=
        [ClosePasswordDialog, StoreState True False False, Log Error ''decryption failed'',
         StoreState False False False]\<rparr>) \<and>
   new_events demo_sys
     (snd (import_onSubmit (demo_env\<lparr>showStatus_global := Reporter\<rparr>) ''garbage'' ''abcd''
        demo_sys)) =
     [ClosePasswordDialog, StoreState True False False, ShowStatus StDecrypting False,
      Invoke (DecryptConfigData ''garbage'' ''abcd''), JSONParse ''garbage'',
      Log Error ''decryption failed'',
      ShowStatus (StDecryptFailed (Rejected ''SyntaxError'')) True,
      StoreState False False False] \<and>
   world (snd (import_onSubmit demo_env ''bundle'' ''wxyz'' demo_sys)) = [(''cfg.enc'', ''bundle'')]"
  using
    import_failure_restores_nothing
      [where env = demo_env and fc = "''bundle''" and p = "''wxyz''"
         and e = "Rejected ''wrong password''" and s = demo_sys]
    import_failure_restores_nothing
      [where env = "demo_env\<lparr>showStatus_global := Reporter\<rparr>" and fc = "''garbage''"
         and p = "''abcd''" and e = "Rejected ''SyntaxError''" and s = demo_sys]
  by (simp add: import_onSubmit_unbound demo_env_def demo_sys_def initial_passwordDialog_def)

subsection \<open>Export of an empty repository\<close>

text \<open>
  C4. When the backup data to collect is empty, \<open>exportConfig\<close> fails with an error at
  once and shows no dialog: with \<open>showStatus\<close> unbound it logs the start, fails on its
  first statement before anything is collected, logs the error and rejects its promise;
  with a reporter bound it collects, logs a warning and reports the error status. In
  both cases these are all its effects, so there is no password dialog, no save dialog,
  no encryption and no file write, and with no dialog open no action of the user adds
  anything.
\<close>

theorem export_empty_guard:
  assumes "collect_backup_contents env (world s) = Inr []"
  shows
    "exportConfig env s =
       (case showStatus_global env of
          Unbound \<Rightarrow>
            (Inl ReferenceError,
             s\<lparr>trace := trace s @
                  [Log Info ''start exporting configuration'',
                   Log Error ''checking data failed'']\<rparr>)
        | Reporter \<Rightarrow>
            (Inr (),
             s\<lparr>trace := trace s @
                  [Log Info ''start exporting configuration'', ShowStatus StCollecting False,
                   Invoke CollectBackupContents, Log Warn ''no user information found'',
                   ShowStatus StNoUserInfo True]\<rparr>)) \<and>
     (\<not> isOpen (dialog s) \<longrightarrow> export_run env a s = snd (exportConfig env s))"
proof -
  have 1: "exportConfig env s =
       (case showStatus_global env of
          Unbound \<Rightarrow>
            (Inl ReferenceError,
             s\<lparr>trace := trace s @
                  [Log Info ''start exporting configuration'',
                   Log Error ''checking data failed'']\<rparr>)
        | Reporter \<Rightarrow>
            (Inr (),
             s\<lparr>trace := trace s @
                  [Log Info ''start exporting configuration'', ShowStatus StCollecting False,
                   Invoke CollectBackupContents, Log Warn ''no user information found'',
                   ShowStatus StNoUserInfo True]\<rparr>))"
    using assms
    by (simp add: exportConfig_def exportConfig_try_def run_simps effect_defs
        split: binding.splits)
  have 2: "export_run env a s = snd (exportConfig env s)" if "\<not> isOpen (dialog s)"
    using that assms
    by (cases a)
      (simp_all add: export_run_def dialog_step_def PasswordDialog_submit_def
        exportConfig_dialog split: binding.splits)
  from 1 2 show ?thesis by blast
qed

theorem export_empty_guard_witness:
  "exportConfig (demo_env\<lparr>collect_backup_contents := (\<lambda>w. Inr [])\<rparr>) demo_sys =
     (Inl ReferenceError,
      demo_sys\<lparr>trace :=
        [Log Info ''start exporting configuration'', Log Error ''checking data failed'']\<rparr>) \<and>
   export_run (demo_env\<lparr>collect_backup_contents := (\<lambda>w. Inr [])\<rparr>) (Submit ''abcd'' ''abcd'')
     demo_sys =
   snd (exportConfig (demo_env\<lparr>collect_backup_contents := (\<lambda>w. Inr [])\<rparr>) demo_sys)"
  using export_empty_guard
    [where env = "demo_env\<lparr>collect_backup_contents := (\<lambda>w. Inr [])\<rparr>" and s = demo_sys
       and a = "Submit ''abcd'' ''abcd''"]
  by (simp add: demo_env_def demo_sys_def initial_passwordDialog_def)

subsection \<open>Partial failure of the restore\<close>


subsection \<open>Cancelling at a file dialog\<close>

text \<open>
  C7. An import in which the user selects no file, and an export in which the user would
  select no save location. With \<open>showStatus\<close> unbound, \<open>importConfig\<close> logs the warning,
  throws at the status call of the cancellation branch, logs the error "file operation
  failed" in its handler, throws again there and rejects its promise. The export never
  comes to the save dialog: \<open>exportConfig\<close> fails on its first statement.
\<close>

theorem cancel_at_file_dialog_throws:
  "importConfig (demo_env\<lparr>dialog_open := Inr JNull\<rparr>) demo_sys =
     (Inl ReferenceError,
      demo_sys\<lparr>trace :=
        [Log Info ''start importing configuration file'', DialogOpen,
         Log Warn ''no file selected'', Log Error ''file operation failed'']\<rparr>) \<and>
   trace
     (export_run (demo_env\<lparr>dialog_save := (\<lambda>n. Inr JNull)\<rparr>) (Submit ''abcd'' ''abcd'')
        demo_sys) =
     [Log Info ''start exporting configuration'', Log Error ''checking data failed'']"
  by (simp add: importConfig_unbound_cancel [where selected = JNull] export_run_def
      dialog_step_def PasswordDialog_submit_def exportConfig_unbound demo_env_def demo_sys_def
      initial_passwordDialog_def)

subsection \<open>The flags and a second call\<close>

text \<open>
  C2 (as amended). Neither \<open>exportConfig\<close> nor \<open>importConfig\<close> consults \<open>isExporting\<close>
  or \<open>isImporting\<close>: whatever the two flags are when the operation is called, it has
  the same outcome, performs the same effects and leaves the flags as they were. A call
  is therefore never rejected or queued on account of a flag.
\<close>

theorem operations_ignore_flags:
  "exportConfig env (s\<lparr>isImporting := a, isExporting := b\<rparr>) =
     (fst (exportConfig env s), (snd (exportConfig env s))\<lparr>isImporting := a, isExporting := b\<rparr>) \<and>
   importConfig env (s\<lparr>isImporting := a, isExporting := b\<rparr>) =
     (fst (importConfig env s), (snd (importConfig env s))\<lparr>isImporting := a, isExporting := b\<rparr>)"
proof
  show "exportConfig env (s\<lparr>isImporting := a, isExporting := b\<rparr>) =
     (fst (exportConfig env s), (snd (exportConfig env s))\<lparr>isImporting := a, isExporting := b\<rparr>)"
  proof (cases "showStatus_global env")
    case Unbound
    then show ?thesis by (simp add: exportConfig_unbound)
  next
    case Reporter
    show ?thesis
    proof (cases "collect_backup_contents env (world s)")
      case (Inl e)
      with Reporter show ?thesis
        by (simp add: exportConfig_def exportConfig_try_def run_simps effect_defs)
    next
      case (Inr bs)
      with Reporter show ?thesis
        by (cases "bs = []")
          (simp_all add: exportConfig_def exportConfig_try_def run_simps effect_defs)
    qed
  qed
next
  show "importConfig env (s\<lparr>isImporting := a, isExporting := b\<rparr>) =
     (fst (importConfig env s), (snd (importConfig env s))\<lparr>isImporting := a, isExporting := b\<rparr>)"
  proof (cases "dialog_open env")
    case (Inl e)
    then show ?thesis
      by (cases "showStatus_global env")
        (simp_all add: importConfig_def importConfig_try_def run_simps effect_defs)
  next
    case (Inr selected)
    show ?thesis
    proof (cases "truthy selected \<and> is_string selected")
      case False
      with Inr show ?thesis
        by (cases "showStatus_global env")
          (auto simp: importConfig_def importConfig_try_def run_simps effect_defs)
    next
      case True
      show ?thesis
      proof (cases "readFile env (the_string selected) (world s)")
        case (Inl e)
        with Inr True show ?thesis
          by (cases "showStatus_global env")
            (simp_all add: importConfig_def importConfig_try_def run_simps effect_defs)
      next
        case fileContent: (Inr c)
        with Inr True show ?thesis
          by (cases "showStatus_global env"; cases "c = []")
            (simp_all add: importConfig_def importConfig_try_def run_simps effect_defs)
      qed
    qed
  qed
qed

theorem operations_ignore_flags_witness:
  "new_events (demo_sys\<lparr>isImporting := False, isExporting := True\<rparr>)
     (snd (importConfig demo_env (demo_sys\<lparr>isImporting := False, isExporting := True\<rparr>))) =
     [Log Info ''start importing configuration file'', DialogOpen, Log Info ''file selected'',
      ReadFile ''cfg.enc'', ShowPasswordDialog ''import configuration file'' False] \<and>
   isExporting (snd (importConfig demo_env (demo_sys\<lparr>isImporting := False, isExporting := True\<rparr>))) \<and>
   fst (exportConfig demo_env (demo_sys\<lparr>isImporting := False, isExporting := True\<rparr>)) =
     fst (exportConfig demo_env demo_sys)"
  using operations_ignore_flags [where env = demo_env and s = demo_sys and a = False and b = True]
  by (simp add: new_events_def importConfig_trace importConfig_state demo_env_def demo_sys_def)

text \<open>
  C2 as the specification states it fails: after the store's action \<open>setExporting\<close> has
  raised \<open>isExporting\<close>, and likewise after \<open>setImporting\<close> has raised \<open>isImporting\<close>, a
  call of \<open>importConfig\<close> opens the file dialog, reads the selected file and opens the
  password dialog.
\<close>

theorem second_call_not_rejected_counterexample:
  "isExporting (setExporting True demo_sys) \<and>
   new_events (setExporting True demo_sys)
     (snd (importConfig demo_env (setExporting True demo_sys))) =
     [Log Info ''start importing configuration file'', DialogOpen, Log Info ''file selected'',
      ReadFile ''cfg.enc'', ShowPasswordDialog ''import configuration file'' False] \<and>
   isOpen (dialog (snd (importConfig demo_env (setExporting True demo_sys)))) \<and>
   isImporting (setImporting True demo_sys) \<and>
   new_events (setImporting True demo_sys)
     (snd (importConfig demo_env (setImporting True demo_sys))) =
     [Log Info ''start importing configuration file'', DialogOpen, Log Info ''file selected'',
      ReadFile ''cfg.enc'', ShowPasswordDialog ''import configuration file'' False] \<and>
   isOpen (dialog (snd (importConfig demo_env (setImporting True demo_sys))))"
  by (simp add: new_events_def importConfig_trace importConfig_dialog setExporting_def
      setImporting_def effect_defs demo_env_def demo_sys_def)

subsection \<open>Order of the export steps\<close>


subsection \<open>Cancellation points\<close>

lemma dialog_cancel_trace:
  "trace (dialog_step env Cancel s) =
     trace s @
     (if isOpen (dialog s) then [ClosePasswordDialog, ToastError ''operation cancelled''] else [])"
  "trace (dialog_step env Dismiss s) =
     trace s @ (if isOpen (dialog s) then [ClosePasswordDialog] else [])"
  by (simp_all add: dialog_step_def effect_defs)

lemma dialog_cancel_state:
  "world (dialog_step env Cancel s) = world s"
  "isImporting (dialog_step env Cancel s) = isImporting s"
  "isExporting (dialog_step env Cancel s) = isExporting s"
  "world (dialog_step env Dismiss s) = world s"
  "isImporting (dialog_step env Dismiss s) = isImporting s"
  "isExporting (dialog_step env Dismiss s) = isExporting s"
  by (simp_all add: dialog_step_def effect_defs)





lemma import_onSubmit_last:
  "last (new_events s (snd (import_onSubmit env fc p s))) =
     StoreState False (isExporting s) (isCheckingData s)"
  by (simp add: new_events_append [OF import_onSubmit_trace])



subsection \<open>Where the flags change\<close>

lemma onSubmit_store_events:
  "filter is_store_event (new_events s (snd (import_onSubmit env fc p s))) =
     [StoreState True (isExporting s) (isCheckingData s),
      StoreState False (isExporting s) (isCheckingData s)]"
  "filter is_store_event (new_events s (snd (export_onSubmit env bs p s))) =
     [StoreState (isImporting s) True (isCheckingData s),
      StoreState (isImporting s) False (isCheckingData s)]"
  by (simp_all add: new_events_append [OF import_onSubmit_trace]
      new_events_append [OF export_onSubmit_trace] split: sum.splits binding.splits)

lemma onSubmit_begins:
  "take 2 (new_events s (snd (import_onSubmit env fc p s))) =
     [ClosePasswordDialog, StoreState True (isExporting s) (isCheckingData s)]"
  "take 2 (new_events s (snd (export_onSubmit env bs p s))) =
     [ClosePasswordDialog, StoreState (isImporting s) True (isCheckingData s)]"
  by (simp_all add: new_events_append [OF import_onSubmit_trace]
      new_events_append [OF export_onSubmit_trace])

lemma export_onSubmit_last:
  "last (new_events s (snd (export_onSubmit env bs p s))) =
     StoreState (isImporting s) False (isCheckingData s)"
  by (simp add: new_events_append [OF export_onSubmit_trace])

lemma operation_store_events:
  "filter is_store_event (new_events s (snd (importConfig env s))) = []"
  "filter is_store_event (new_events s (snd (exportConfig env s))) = []"
  by (simp_all add: new_events_append [OF importConfig_trace]
      new_events_append [OF exportConfig_trace] split: sum.splits binding.splits)

lemma dialog_cancel_store_events:
  "filter is_store_event (new_events s (dialog_step env Cancel s)) = []"
  "filter is_store_event (new_events s (dialog_step env Dismiss s)) = []"
  by (simp_all add: new_events_def dialog_cancel_trace)

text \<open>
  C10. \<open>importConfig\<close> and \<open>exportConfig\<close> themselves, up to and including the opening of
  the password dialog, never change the store, and neither does cancelling or
  dismissing the dialog: the flags stay what they were. Only the submit handler changes
  its flag. Its second effect, right after closing the dialog, publishes a state in
  which the flag is true; its last effect, whatever happened in between, publishes a
  state in which the flag is false; it changes the store at no other point, and the
  flag is false when it has finished.
\<close>

theorem flag_discipline:
  "filter is_store_event (new_events s (snd (importConfig env s))) = [] \<and>
   isImporting (snd (importConfig env s)) = isImporting s \<and>
   isExporting (snd (importConfig env s)) = isExporting s \<and>
   filter is_store_event (new_events s (snd (exportConfig env s))) = [] \<and>
   isImporting (snd (exportConfig env s)) = isImporting s \<and>
   isExporting (snd (exportConfig env s)) = isExporting s \<and>
   filter is_store_event (new_events s (dialog_step env Cancel s)) = [] \<and>
   isImporting (dialog_step env Cancel s) = isImporting s \<and>
   isExporting (dialog_step env Cancel s) = isExporting s \<and>
   filter is_store_event (new_events s (dialog_step env Dismiss s)) = [] \<and>
   isImporting (dialog_step env Dismiss s) = isImporting s \<and>
   isExporting (dialog_step env Dismiss s) = isExporting s \<and>
   isImporting (set_isImporting True s) \<and> isExporting (set_isExporting True s) \<and>
   take 2 (new_events s (snd (import_onSubmit env fc p s))) =
     [ClosePasswordDialog, StoreState True (isExporting s) (isCheckingData s)] \<and>
   filter is_store_event (new_events s (snd (import_onSubmit env fc p s))) =
     [StoreState True (isExporting s) (isCheckingData s),
      StoreState False (isExporting s) (isCheckingData s)] \<and>
   last (new_events s (snd (import_onSubmit env fc p s))) =
     StoreState False (isExporting s) (isCheckingData s) \<and>
   \<not> isImporting (snd (import_onSubmit env fc p s)) \<and>
   take 2 (new_events s (snd (export_onSubmit env bs p s))) =
     [ClosePasswordDialog, StoreState (isImporting s) True (isCheckingData s)] \<and>
   filter is_store_event (new_events s (snd (export_onSubmit env bs p s))) =
     [StoreState (isImporting s) True (isCheckingData s),
      StoreState (isImporting s) False (isCheckingData s)] \<and>
   last (new_events s (snd (export_onSubmit env bs p s))) =
     StoreState (isImporting s) False (isCheckingData s) \<and>
   \<not> isExporting (snd (export_onSubmit env bs p s))"
  by (simp add: operation_store_events dialog_cancel_store_events dialog_cancel_state
      importConfig_state exportConfig_state onSubmit_begins onSubmit_store_events
      import_onSubmit_last export_onSubmit_last import_onSubmit_state export_onSubmit_state)
    (simp add: effect_defs)

theorem flag_discipline_witness:
  "filter (\<lambda>e. is_store_event e \<or> e = ShowPasswordDialog ''import configuration file'' False)
     (trace (import_run demo_env (Submit ''abcd'' []) demo_sys)) =
     [ShowPasswordDialog ''import configuration file'' False, StoreState True False False,
      StoreState False False False] \<and>
   \<not> isImporting (snd (importConfig demo_env demo_sys)) \<and>
   isOpen (dialog (snd (importConfig demo_env demo_sys))) \<and>
   \<not> isImporting (snd (import_onSubmit demo_env ''bundle'' ''abcd'' demo_sys)) \<and>
   filter is_store_event
     (new_events demo_sys (snd (export_onSubmit demo_env demo_backups ''abcd'' demo_sys))) =
     [StoreState False True False, StoreState False False False]"
  using
    flag_discipline
      [where s = demo_sys and env = demo_env and fc = "''bundle''" and p = "''abcd''"
         and bs = demo_backups]
  by (simp add: import_run_def dialog_step_def PasswordDialog_submit_def call_onSubmit_def
      importConfig_dialog importConfig_trace importConfig_state import_onSubmit_trace
      import_validatePassword_def demo_env_def demo_sys_def)

end
